theory Spec2Isabelle
  imports Main
begin

section \<open>The form-filling script \<^verbatim>\<open>server/index.js\<close>\<close>

text \<open>
  The script holds one object literal, \<^verbatim>\<open>jsonSchema\<close>, one global array,
  \<^verbatim>\<open>messages\<close>, and one asynchronous function, \<^verbatim>\<open>getResponse\<close>, which
  is called once. The function talks to a chat-completion service five times inside a
  single \<^verbatim>\<open>try\<close> block and pushes three fixed user replies into
  \<^verbatim>\<open>messages\<close> on the way. The model starts where
  \<^verbatim>\<open>getResponse()\<close> is called, with the literal and the array as the script
  has just built them; the service the client talks to is a parameter.
\<close>

subsection \<open>JavaScript values of the object literal\<close>

text \<open>
  An object literal is kept as the list of its properties in source order, which is also
  the order in which \<^verbatim>\<open>JSON.stringify\<close> prints them (no key of the literal is
  an array index). The numbers of the literal are small integers.
\<close>

datatype json =
    JNull
  | JBool bool
  | JNum int
  | JStr string
  | JArr "json list"
  | JObj "(string \<times> json) list"

text \<open>Reading a property, \<^verbatim>\<open>o.k\<close>: \<open>None\<close> stands for \<^verbatim>\<open>undefined\<close>.\<close>

fun jget :: "string \<Rightarrow> json \<Rightarrow> json option" where
  "jget k (JObj kvs) = map_of kvs k"
| "jget k _ = None"

definition field_01 :: json where
  "field_01 = JObj
    [(''id'', JStr ''field_01''),
     (''label'', JStr ''Full Name''),
     (''type'', JStr ''text''),
     (''value'', JNull),
     (''required'', JBool True),
     (''boundingBox'', JObj
        [(''x'', JNum 100), (''y'', JNum 200), (''width'', JNum 300), (''height'', JNum 30)]),
     (''grouping'', JObj
        [(''visualGroup'', JStr ''Personal Info''), (''logicalRule'', JNull)]),
     (''accessibility'', JObj
        [(''screenReaderHint'', JStr ''Enter your full legal name''),
         (''tabOrder'', JNum 1)])]"

definition field_02 :: json where
  "field_02 = JObj
    [(''id'', JStr ''field_02''),
     (''label'', JStr ''Date of Birth''),
     (''type'', JStr ''date''),
     (''value'', JNull),
     (''required'', JBool True),
     (''boundingBox'', JObj
        [(''x'', JNum 100), (''y'', JNum 250), (''width'', JNum 200), (''height'', JNum 30)]),
     (''grouping'', JObj
        [(''visualGroup'', JStr ''Personal Info''), (''logicalRule'', JNull)]),
     (''accessibility'', JObj
        [(''screenReaderHint'', JStr ''Enter date in MM/DD/YYYY format''),
         (''tabOrder'', JNum 2)])]"

text \<open>
  The third field is written as the source has it: its \<^verbatim>\<open>accessibility\<close> object
  carries a hint about race, a second list of options and its own
  \<^verbatim>\<open>value\<close> and \<^verbatim>\<open>required\<close> properties next to the tab order.
\<close>

definition field_03 :: json where
  "field_03 = JObj
    [(''id'', JStr ''field_03''),
     (''label'', JStr ''Gender''),
     (''type'', JStr ''radio''),
     (''options'', JArr [JStr ''Male'', JStr ''Female'', JStr ''Other'']),
     (''value'', JNull),
     (''required'', JBool False),
     (''boundingBox'', JObj
        [(''x'', JNum 100), (''y'', JNum 300), (''width'', JNum 300), (''height'', JNum 60)]),
     (''grouping'', JObj
        [(''visualGroup'', JStr ''Demographics''), (''logicalRule'', JStr ''selectOne'')]),
     (''accessibility'', JObj
        [(''screenReaderHint'', JStr ''Select one Race option''),
         (''options'', JArr
            [JStr ''Asian'',
             JStr ''Black or African American'',
             JStr ''Hispanic or Latino'',
             JStr ''Native American or Alaska Native'',
             JStr ''Native Hawaiian or Pacific Islander'',
             JStr ''White'',
             JStr ''Two or More Races'',
             JStr ''Prefer not to say'']),
         (''value'', JNull),
         (''required'', JBool False),
         (''tabOrder'', JNum 3)])]"

definition jsonSchema :: json where
  "jsonSchema = JObj
    [(''formTitle'', JStr ''Medical Intake Form''),
     (''formId'', JStr ''form_001''),
     (''fields'', JArr [field_01, field_02, field_03])]"

text \<open>The array under \<^verbatim>\<open>fields\<close> (empty when there is none).\<close>

definition fields_of :: "json \<Rightarrow> json list" where
  "fields_of j = (case jget ''fields'' j of Some (JArr fs) \<Rightarrow> fs | _ \<Rightarrow> [])"

text \<open>\<^verbatim>\<open>f.accessibility.tabOrder\<close>, where the literal keeps the tab order.\<close>

definition tabOrder :: "json \<Rightarrow> json option" where
  "tabOrder f =
    (case jget ''accessibility'' f of Some a \<Rightarrow> jget ''tabOrder'' a | None \<Rightarrow> None)"

text \<open>\<^verbatim>\<open>f.grouping.logicalRule\<close>.\<close>

definition logicalRule :: "json \<Rightarrow> json option" where
  "logicalRule f =
    (case jget ''grouping'' f of Some g \<Rightarrow> jget ''logicalRule'' g | None \<Rightarrow> None)"

subsection \<open>\<^verbatim>\<open>JSON.stringify(v, null, 2)\<close>\<close>

text \<open>
  The prompt embeds the schema through the runtime's \<^verbatim>\<open>JSON.stringify\<close> with
  an indentation of two spaces. The function below follows the serialisation algorithm
  of the language standard on the values a literal holds here: integers in decimal,
  strings quoted with the standard escapes, arrays and objects one member per line.
\<close>

definition digit :: "nat \<Rightarrow> char" where
  "digit d = char_of (48 + d)"

fun show_nat :: "nat \<Rightarrow> string" where
  "show_nat n = (if n < 10 then [digit n] else show_nat (n div 10) @ [digit (n mod 10)])"

declare show_nat.simps [simp del]

definition show_int :: "int \<Rightarrow> string" where
  "show_int i = (if i < 0 then CHR ''-'' # show_nat (nat (- i)) else show_nat (nat i))"

definition hex :: "nat \<Rightarrow> char" where
  "hex d = (if d < 10 then char_of (48 + d) else char_of (87 + d))"

definition escape :: "char \<Rightarrow> string" where
  "escape c =
    (if c = CHR 0x22 then [CHR 0x5C, CHR 0x22]
     else if c = CHR 0x5C then [CHR 0x5C, CHR 0x5C]
     else if c = CHR 0x08 then [CHR 0x5C, CHR ''b'']
     else if c = CHR 0x0C then [CHR 0x5C, CHR ''f'']
     else if c = CHR 0x0A then [CHR 0x5C, CHR ''n'']
     else if c = CHR 0x0D then [CHR 0x5C, CHR ''r'']
     else if c = CHR 0x09 then [CHR 0x5C, CHR ''t'']
     else if (of_char c :: nat) < 32
       then [CHR 0x5C, CHR ''u'', CHR ''0'', CHR ''0'',
             hex (of_char c div 16), hex (of_char c mod 16)]
     else [c])"

definition quote :: "string \<Rightarrow> string" where
  "quote s = CHR 0x22 # concat (map escape s) @ [CHR 0x22]"

fun join :: "string \<Rightarrow> string list \<Rightarrow> string" where
  "join sep [] = []"
| "join sep [x] = x"
| "join sep (x # y # ys) = x @ sep @ join sep (y # ys)"

definition gap :: string where
  "gap = ''  ''"

fun serialize :: "string \<Rightarrow> json \<Rightarrow> string" where
  "serialize indent JNull = ''null''"
| "serialize indent (JBool b) = (if b then ''true'' else ''false'')"
| "serialize indent (JNum n) = show_int n"
| "serialize indent (JStr s) = quote s"
| "serialize indent (JArr xs) =
    (if xs = [] then ''[]''
     else ''['' @ [CHR 0x0A] @ (indent @ gap)
       @ join ('','' @ [CHR 0x0A] @ (indent @ gap)) (map (serialize (indent @ gap)) xs)
       @ [CHR 0x0A] @ indent @ '']'')"
| "serialize indent (JObj kvs) =
    (if kvs = [] then ''{}''
     else ''{'' @ [CHR 0x0A] @ (indent @ gap)
       @ join ('','' @ [CHR 0x0A] @ (indent @ gap))
           (map (\<lambda>(k, v). quote k @ '': '' @ serialize (indent @ gap) v) kvs)
       @ [CHR 0x0A] @ indent @ ''}'')"

definition stringify :: "json \<Rightarrow> string" where
  "stringify v = serialize [] v"

subsection \<open>The conversation log and the state the script touches\<close>

record message =
  role :: string
  content :: string

text \<open>
  The first element of \<^verbatim>\<open>messages\<close>: the instructions, written as a template
  literal that spans four source lines and ends with the serialised schema.
\<close>

definition instructions :: string where
  "instructions =
    ''You are a helpful assistant guiding someone through filling out a digital form. ''
    @ ''Ask only one clear and friendly question at a time based on the fields in this JSON schema. ''
    @ ''Prioritize required fields first, and wait for user input before continuing.''
    @ [CHR 0x0A, CHR 0x0A]
    @ ''when finshed with the form send it back to the user completely filled out in a neat form ''
    @ ''Here is the JSON schema:''
    @ [CHR 0x0A, CHR 0x0A]"

definition messages_literal :: "message list" where
  "messages_literal = [\<lparr>role = ''user'', content = instructions @ stringify jsonSchema\<rparr>]"

text \<open>
  What a call of the chat-completion service can do: the promise is rejected (a network
  failure, a timeout, a refused key), or it resolves with a response, of which the script
  reads only \<^verbatim>\<open>choices[i].message.content\<close>; a response is kept as the list of
  these contents, each a string.
\<close>

datatype api_result = Rejects string | Resolves "string list"

datatype error = ApiError string | TypeError

record request =
  model :: string
  req_messages :: "message list"

text \<open>
  The service is outside the program. It is a parameter: the result of the \<open>n\<close>-th call
  (counted from 0) on the request sent, so two calls with the same request may differ.
\<close>

type_synonym service = "nat \<Rightarrow> request \<Rightarrow> api_result"

record state =
  schema :: json
  messages :: "message list"
  stdout :: "string list"
  stderr :: "(string \<times> error) list"
  requests :: "request list"

definition init :: state where
  "init = \<lparr>schema = jsonSchema, messages = messages_literal, stdout = [], stderr = [],
     requests = []\<rparr>"

subsection \<open>Statements that may throw\<close>

type_synonym 'a prog = "state \<Rightarrow> (error + 'a) \<times> state"

definition bindP :: "'a prog \<Rightarrow> ('a \<Rightarrow> 'b prog) \<Rightarrow> 'b prog" where
  "bindP m f s = (case m s of (Inl e, s') \<Rightarrow> (Inl e, s') | (Inr a, s') \<Rightarrow> f a s')"

definition thenP :: "unit prog \<Rightarrow> 'b prog \<Rightarrow> 'b prog" where
  "thenP m k = bindP m (\<lambda>_. k)"

text \<open>\<^verbatim>\<open>await openai.chat.completions.create({model: 'gpt-4', messages: messages})\<close>\<close>

definition create :: "service \<Rightarrow> (string list) prog" where
  "create svc s =
    (let rq = \<lparr>model = ''gpt-4'', req_messages = messages s\<rparr>;
         s' = s\<lparr>requests := requests s @ [rq]\<rparr>
     in case svc (length (requests s)) rq of
          Rejects e \<Rightarrow> (Inl (ApiError e), s')
        | Resolves choices \<Rightarrow> (Inr choices, s'))"

text \<open>
  \<^verbatim>\<open>r.choices[0].message.content\<close>: with no first choice, \<^verbatim>\<open>choices[0]\<close> is
  \<^verbatim>\<open>undefined\<close> and reading a property of it throws a \<^verbatim>\<open>TypeError\<close>.
\<close>

definition first_content :: "string list \<Rightarrow> string prog" where
  "first_content choices s =
    (case choices of [] \<Rightarrow> (Inl TypeError, s) | c # _ \<Rightarrow> (Inr c, s))"

definition console_log :: "string \<Rightarrow> unit prog" where
  "console_log line s = (Inr (), s\<lparr>stdout := stdout s @ [line]\<rparr>)"

definition console_error :: "string \<Rightarrow> error \<Rightarrow> state \<Rightarrow> state" where
  "console_error label e s = s\<lparr>stderr := stderr s @ [(label, e)]\<rparr>"

definition push :: "message \<Rightarrow> unit prog" where
  "push m s = (Inr (), s\<lparr>messages := messages s @ [m]\<rparr>)"

subsection \<open>\<^verbatim>\<open>getResponse\<close>\<close>

text \<open>
  The body of the \<^verbatim>\<open>try\<close> block, statement by statement, with the source's
  names. The reply to the date of birth (\<^verbatim>\<open>DOB\<close>) is printed without the
  \<^verbatim>\<open>BOT:\<close> prefix and is not pushed; the next call (\<^verbatim>\<open>gender\<close>) sends the
  same log again.
\<close>

definition getResponse_try :: "service \<Rightarrow> unit prog" where
  "getResponse_try svc =
    bindP (create svc) (\<lambda>response.
    bindP (first_content response) (\<lambda>repy.
    thenP (console_log (''BOT:'' @ repy)) (
    thenP (push \<lparr>role = ''assistant'', content = repy\<rparr>) (
    thenP (push \<lparr>role = ''user'', content = ''Youdahe Asfaw''\<rparr>) (
    bindP (create svc) (\<lambda>followUp.
    bindP (first_content followUp) (\<lambda>DOBreply.
    thenP (console_log (''BOT:'' @ DOBreply)) (
    thenP (push \<lparr>role = ''assistant'', content = DOBreply\<rparr>) (
    thenP (push \<lparr>role = ''user'', content = ''04/29/2006''\<rparr>) (
    bindP (create svc) (\<lambda>DOB.
    bindP (first_content DOB) (\<lambda>DOBcontent.
    thenP (console_log DOBcontent) (
    bindP (create svc) (\<lambda>gender.
    bindP (first_content gender) (\<lambda>GenderReply.
    thenP (console_log (''BOT:'' @ GenderReply)) (
    thenP (push \<lparr>role = ''assistant'', content = GenderReply\<rparr>) (
    thenP (push \<lparr>role = ''user'', content = ''Male''\<rparr>) (
    bindP (create svc) (\<lambda>genderResponse.
    bindP (first_content genderResponse) (\<lambda>genderContent.
    console_log genderContent))))))))))))))))))))"

text \<open>
  The whole function: an exception thrown anywhere in the block is caught, reported with
  \<^verbatim>\<open>console.error\<close>, and the function ends. The result is the state the script
  leaves behind.
\<close>

definition getResponse :: "service \<Rightarrow> state \<Rightarrow> state" where
  "getResponse svc s =
    (case getResponse_try svc s of
       (Inr _, s') \<Rightarrow> s'
     | (Inl e, s') \<Rightarrow> console_error ''Error getting response:'' e s')"

subsection \<open>Vocabulary of the properties\<close>

text \<open>The message and request objects the script builds, as it writes them.\<close>

abbreviation user :: "string \<Rightarrow> message" where
  "user c \<equiv> \<lparr>role = ''user'', content = c\<rparr>"

abbreviation assistant :: "string \<Rightarrow> message" where
  "assistant c \<equiv> \<lparr>role = ''assistant'', content = c\<rparr>"

abbreviation chat :: "message list \<Rightarrow> request" where
  "chat ms \<equiv> \<lparr>model = ''gpt-4'', req_messages = ms\<rparr>"

text \<open>The log after the first, the second and the third fixed reply.\<close>

abbreviation log1 :: "message list \<Rightarrow> string \<Rightarrow> message list" where
  "log1 ms repy \<equiv> ms @ [assistant repy, user ''Youdahe Asfaw'']"

abbreviation log2 :: "message list \<Rightarrow> string \<Rightarrow> string \<Rightarrow> message list" where
  "log2 ms repy DOBreply \<equiv>
    ms @ [assistant repy, user ''Youdahe Asfaw'', assistant DOBreply, user ''04/29/2006'']"

abbreviation log3 :: "message list \<Rightarrow> string \<Rightarrow> string \<Rightarrow> string \<Rightarrow> message list" where
  "log3 ms repy DOBreply GenderReply \<equiv>
    ms @ [assistant repy, user ''Youdahe Asfaw'', assistant DOBreply, user ''04/29/2006'',
          assistant GenderReply, user ''Male'']"

text \<open>
  What one exchange gives the script: the awaited call followed by the read of
  \<^verbatim>\<open>choices[0].message.content\<close>, either of which may throw.
\<close>

definition outcome :: "api_result \<Rightarrow> error + string" where
  "outcome r =
    (case r of
       Rejects e \<Rightarrow> Inl (ApiError e)
     | Resolves [] \<Rightarrow> Inl TypeError
     | Resolves (c # _) \<Rightarrow> Inr c)"

text \<open>The messages pushed during a run, and the contents of those of the user role.\<close>

definition appended :: "state \<Rightarrow> state \<Rightarrow> message list" where
  "appended s s' = drop (length (messages s)) (messages s')"

definition user_contents :: "message list \<Rightarrow> string list" where
  "user_contents ms = map content (filter (\<lambda>m. role m = ''user'') ms)"

text \<open>
  How many of the three fixed replies have been pushed by the time the \<open>k\<close>-th request
  has been sent: one before the second request, one before the third, none before the
  fourth, one before the fifth.
\<close>

definition utterances_after :: "nat \<Rightarrow> nat" where
  "utterances_after k = (if k \<le> 1 then 0 else if k = 2 then 1 else if k \<le> 4 then 2 else 3)"






text \<open>
  The user side of the conversation as the service decides it: which of the three fixed
  utterances are pushed before the first of the first four exchanges that throws. The
  \<open>n\<close> is the number of requests sent before the run and \<open>ms\<close> the log it starts from.
\<close>

definition user_side :: "service \<Rightarrow> nat \<Rightarrow> message list \<Rightarrow> string list" where
  "user_side svc n ms =
    (case outcome (svc n (chat ms)) of
       Inl e \<Rightarrow> []
     | Inr repy \<Rightarrow>
        (case outcome (svc (n + 1) (chat (log1 ms repy))) of
           Inl e \<Rightarrow> [''Youdahe Asfaw'']
         | Inr DOBreply \<Rightarrow>
            (case outcome (svc (n + 2) (chat (log2 ms repy DOBreply))) of
               Inl e \<Rightarrow> [''Youdahe Asfaw'', ''04/29/2006'']
             | Inr DOBcontent \<Rightarrow>
                (case outcome (svc (n + 3) (chat (log2 ms repy DOBreply))) of
                   Inl e \<Rightarrow> [''Youdahe Asfaw'', ''04/29/2006'']
                 | Inr GenderReply \<Rightarrow> [''Youdahe Asfaw'', ''04/29/2006'', ''Male'']))))"

text \<open>
  Services used as concrete inputs: one that always answers \<^verbatim>\<open>ok\<close>, one that
  refuses every call, one that times out on the first call about gender (the fourth
  call) only, one that always sends the form back as it received it, and one that times
  out on the call numbered \<open>j\<close> only.
\<close>

definition always_ok :: service where
  "always_ok n rq = Resolves [''ok'']"

definition always_down :: service where
  "always_down n rq = Rejects ''connect ECONNREFUSED''"

definition gender_timeout :: service where
  "gender_timeout n rq = (if n = 3 then Rejects ''Request timed out.'' else Resolves [''ok''])"

definition blank_form :: service where
  "blank_form n rq = Resolves [stringify jsonSchema]"

definition fails_at :: "nat \<Rightarrow> service" where
  "fails_at j n rq = (if n = j then Rejects ''Request timed out.'' else Resolves [''ok''])"

section \<open>Properties\<close>

subsection \<open>One step of the block at a time\<close>

lemma ask_step:
  "bindP (create svc) (\<lambda>r. bindP (first_content r) k) s =
    (case outcome (svc (length (requests s)) (chat (messages s))) of
       Inl e \<Rightarrow> (Inl e, s\<lparr>requests := requests s @ [chat (messages s)]\<rparr>)
     | Inr c \<Rightarrow> k c (s\<lparr>requests := requests s @ [chat (messages s)]\<rparr>))"
  by (simp add: bindP_def create_def first_content_def outcome_def Let_def
      split: api_result.splits list.splits)

lemma log_step: "thenP (console_log l) k s = k (s\<lparr>stdout := stdout s @ [l]\<rparr>)"
  by (simp add: thenP_def bindP_def console_log_def)

lemma push_step: "thenP (push m) k s = k (s\<lparr>messages := messages s @ [m]\<rparr>)"
  by (simp add: thenP_def bindP_def push_def)

lemma last_step: "console_log l s = (Inr (), s\<lparr>stdout := stdout s @ [l]\<rparr>)"
  by (simp add: console_log_def)

lemmas steps = ask_step log_step push_step last_step

lemma idx: "n + 3 = Suc (Suc (Suc n))" "n + 4 = Suc (Suc (Suc (Suc n)))"
  by simp_all

subsection \<open>The six ways a run can go\<close>

text \<open>
  A run ends at the first exchange that throws, or completes all five. In each case the
  state left behind is known field by field.
\<close>

lemma getResponse_cases:
  fixes svc :: service and s :: state
  obtains
    (fail0) e where
      "outcome (svc (length (requests s)) (chat (messages s))) = Inl e"
      "schema (getResponse svc s) = schema s"
      "messages (getResponse svc s) = messages s"
      "stdout (getResponse svc s) = stdout s"
      "stderr (getResponse svc s) = stderr s @ [(''Error getting response:'', e)]"
      "requests (getResponse svc s) = requests s @ [chat (messages s)]"
  | (fail1) repy e where
      "outcome (svc (length (requests s)) (chat (messages s))) = Inr repy"
      "outcome (svc (length (requests s) + 1) (chat (log1 (messages s) repy))) = Inl e"
      "schema (getResponse svc s) = schema s"
      "messages (getResponse svc s) = log1 (messages s) repy"
      "stdout (getResponse svc s) = stdout s @ [''BOT:'' @ repy]"
      "stderr (getResponse svc s) = stderr s @ [(''Error getting response:'', e)]"
      "requests (getResponse svc s) = requests s @
         [chat (messages s),
          chat (log1 (messages s) repy)]"
  | (fail2) repy DOBreply e where
      "outcome (svc (length (requests s)) (chat (messages s))) = Inr repy"
      "outcome (svc (length (requests s) + 1) (chat (log1 (messages s) repy))) = Inr DOBreply"
      "outcome (svc (length (requests s) + 2) (chat (log2 (messages s) repy DOBreply))) = Inl e"
      "schema (getResponse svc s) = schema s"
      "messages (getResponse svc s) = log2 (messages s) repy DOBreply"
      "stdout (getResponse svc s) = stdout s @ [''BOT:'' @ repy, ''BOT:'' @ DOBreply]"
      "stderr (getResponse svc s) = stderr s @ [(''Error getting response:'', e)]"
      "requests (getResponse svc s) = requests s @
         [chat (messages s),
          chat (log1 (messages s) repy),
          chat (log2 (messages s) repy DOBreply)]"
  | (fail3) repy DOBreply DOBcontent e where
      "outcome (svc (length (requests s)) (chat (messages s))) = Inr repy"
      "outcome (svc (length (requests s) + 1) (chat (log1 (messages s) repy))) = Inr DOBreply"
      "outcome (svc (length (requests s) + 2)
           (chat (log2 (messages s) repy DOBreply))) = Inr DOBcontent"
      "outcome (svc (length (requests s) + 3) (chat (log2 (messages s) repy DOBreply))) = Inl e"
      "schema (getResponse svc s) = schema s"
      "messages (getResponse svc s) = log2 (messages s) repy DOBreply"
      "stdout (getResponse svc s) = stdout s @ [''BOT:'' @ repy, ''BOT:'' @ DOBreply, DOBcontent]"
      "stderr (getResponse svc s) = stderr s @ [(''Error getting response:'', e)]"
      "requests (getResponse svc s) = requests s @
         [chat (messages s),
          chat (log1 (messages s) repy),
          chat (log2 (messages s) repy DOBreply),
          chat (log2 (messages s) repy DOBreply)]"
  | (fail4) repy DOBreply DOBcontent GenderReply e where
      "outcome (svc (length (requests s)) (chat (messages s))) = Inr repy"
      "outcome (svc (length (requests s) + 1) (chat (log1 (messages s) repy))) = Inr DOBreply"
      "outcome (svc (length (requests s) + 2)
           (chat (log2 (messages s) repy DOBreply))) = Inr DOBcontent"
      "outcome (svc (length (requests s) + 3)
           (chat (log2 (messages s) repy DOBreply))) = Inr GenderReply"
      "outcome (svc (length (requests s) + 4)
           (chat (log3 (messages s) repy DOBreply GenderReply))) = Inl e"
      "schema (getResponse svc s) = schema s"
      "messages (getResponse svc s) = log3 (messages s) repy DOBreply GenderReply"
      "stdout (getResponse svc s) = stdout s @
         [''BOT:'' @ repy, ''BOT:'' @ DOBreply, DOBcontent, ''BOT:'' @ GenderReply]"
      "stderr (getResponse svc s) = stderr s @ [(''Error getting response:'', e)]"
      "requests (getResponse svc s) = requests s @
         [chat (messages s),
          chat (log1 (messages s) repy),
          chat (log2 (messages s) repy DOBreply),
          chat (log2 (messages s) repy DOBreply),
          chat (log3 (messages s) repy DOBreply GenderReply)]"
  | (completed) repy DOBreply DOBcontent GenderReply genderContent where
      "outcome (svc (length (requests s)) (chat (messages s))) = Inr repy"
      "outcome (svc (length (requests s) + 1) (chat (log1 (messages s) repy))) = Inr DOBreply"
      "outcome (svc (length (requests s) + 2)
           (chat (log2 (messages s) repy DOBreply))) = Inr DOBcontent"
      "outcome (svc (length (requests s) + 3)
           (chat (log2 (messages s) repy DOBreply))) = Inr GenderReply"
      "outcome (svc (length (requests s) + 4)
           (chat (log3 (messages s) repy DOBreply GenderReply))) = Inr genderContent"
      "schema (getResponse svc s) = schema s"
      "messages (getResponse svc s) = log3 (messages s) repy DOBreply GenderReply"
      "stdout (getResponse svc s) = stdout s @
         [''BOT:'' @ repy, ''BOT:'' @ DOBreply, DOBcontent, ''BOT:'' @ GenderReply, genderContent]"
      "stderr (getResponse svc s) = stderr s"
      "requests (getResponse svc s) = requests s @
         [chat (messages s),
          chat (log1 (messages s) repy),
          chat (log2 (messages s) repy DOBreply),
          chat (log2 (messages s) repy DOBreply),
          chat (log3 (messages s) repy DOBreply GenderReply)]"
proof -
  show ?thesis
  proof (cases "outcome (svc (length (requests s)) (chat (messages s)))")
    case (Inl e)
    note failed = Inl[simplified, unfolded idx]
    show ?thesis
      by (rule fail0[of e])
        (simp_all add: idx getResponse_def getResponse_try_def steps console_error_def failed)
  next
    case r0: (Inr repy)
    note r0 = r0[simplified, unfolded idx]
    show ?thesis
    proof (cases "outcome (svc (length (requests s) + 1) (chat (log1 (messages s) repy)))")
      case (Inl e)
      note failed = Inl[simplified, unfolded idx]
      show ?thesis
        by (rule fail1[of repy e])
          (simp_all add: idx getResponse_def getResponse_try_def steps
              console_error_def r0 failed)
    next
      case r1: (Inr DOBreply)
      note r1 = r1[simplified, unfolded idx]
      show ?thesis
      proof (cases "outcome (svc (length (requests s) + 2)
              (chat (log2 (messages s) repy DOBreply)))")
        case (Inl e)
        note failed = Inl[simplified, unfolded idx]
        show ?thesis
          by (rule fail2[of repy DOBreply e])
            (simp_all add: idx getResponse_def getResponse_try_def steps
                console_error_def r0 r1 failed)
      next
        case r2: (Inr DOBcontent)
        note r2 = r2[simplified, unfolded idx]
        show ?thesis
        proof (cases "outcome (svc (length (requests s) + 3)
                (chat (log2 (messages s) repy DOBreply)))")
          case (Inl e)
          note failed = Inl[simplified, unfolded idx]
          show ?thesis
            by (rule fail3[of repy DOBreply DOBcontent e])
              (simp_all add: idx getResponse_def getResponse_try_def steps
                  console_error_def r0 r1 r2 failed)
        next
          case r3: (Inr GenderReply)
          note r3 = r3[simplified, unfolded idx]
          show ?thesis
          proof (cases "outcome (svc (length (requests s) + 4)
                  (chat (log3 (messages s) repy DOBreply GenderReply)))")
            case (Inl e)
            note failed = Inl[simplified, unfolded idx]
            show ?thesis
              by (rule fail4[of repy DOBreply DOBcontent GenderReply e])
                (simp_all add: idx getResponse_def getResponse_try_def steps
                    console_error_def r0 r1 r2 r3 failed)
          next
            case r4: (Inr genderContent)
            note r4 = r4[simplified, unfolded idx]
            show ?thesis
              by (rule completed[of repy DOBreply DOBcontent GenderReply genderContent])
                (simp_all add: idx getResponse_def getResponse_try_def steps r0 r1 r2 r3 r4)
          qed
        qed
      qed
    qed
  qed
qed

subsection \<open>The literal and the concrete runs\<close>

lemma init_simps:
  "schema init = jsonSchema" "messages init = messages_literal" "stdout init = []"
  "stderr init = []" "requests init = []"
  by (simp_all add: init_def)

lemma fields_jsonSchema: "fields_of jsonSchema = [field_01, field_02, field_03]"
  by (simp add: fields_of_def jsonSchema_def)

lemma value_null:
  "jget ''value'' field_01 = Some JNull"
  "jget ''value'' field_02 = Some JNull"
  "jget ''value'' field_03 = Some JNull"
  by (simp_all add: field_01_def field_02_def field_03_def)

lemma required_flags:
  "jget ''required'' field_01 = Some (JBool True)"
  "jget ''required'' field_02 = Some (JBool True)"
  "jget ''required'' field_03 = Some (JBool False)"
  by (simp_all add: field_01_def field_02_def field_03_def)

lemma gender_field:
  "jget ''type'' field_03 = Some (JStr ''radio'')"
  "jget ''options'' field_03 = Some (JArr [JStr ''Male'', JStr ''Female'', JStr ''Other''])"
  by (simp_all add: field_03_def)

lemma outcome_ok: "outcome (always_ok n rq) = Inr ''ok''"
  by (simp add: outcome_def always_ok_def)

lemma outcome_down: "outcome (always_down n rq) = Inl (ApiError ''connect ECONNREFUSED'')"
  by (simp add: outcome_def always_down_def)

lemma outcome_blank_form: "outcome (blank_form n rq) = Inr (stringify jsonSchema)"
  by (simp add: outcome_def blank_form_def)

lemma outcome_fails_at:
  "outcome (fails_at j n rq) =
     (if n = j then Inl (ApiError ''Request timed out.'') else Inr ''ok'')"
  by (simp add: outcome_def fails_at_def)

lemma outcome_gender_timeout:
  "outcome (gender_timeout n rq) =
     (if n = 3 then Inl (ApiError ''Request timed out.'') else Inr ''ok'')"
  by (simp add: outcome_def gender_timeout_def)

lemma user_contents_simps:
  "user_contents [] = []"
  "user_contents (\<lparr>role = r, content = c\<rparr> # ms) =
     (if r = ''user'' then c # user_contents ms else user_contents ms)"
  by (simp_all add: user_contents_def)

lemma appended_append: "messages s' = messages s @ ms \<Longrightarrow> appended s s' = ms"
  by (simp add: appended_def)

lemma appended_same: "messages s' = messages s \<Longrightarrow> appended s s' = []"
  by (simp add: appended_def)

lemma run_always_ok:
  "schema (getResponse always_ok init) = jsonSchema"
  "messages (getResponse always_ok init) = log3 messages_literal ''ok'' ''ok'' ''ok''"
  "stdout (getResponse always_ok init) = [''BOT:ok'', ''BOT:ok'', ''ok'', ''BOT:ok'', ''ok'']"
  "stderr (getResponse always_ok init) = []"
  "requests (getResponse always_ok init) =
     [chat messages_literal,
      chat (log1 messages_literal ''ok''),
      chat (log2 messages_literal ''ok'' ''ok''),
      chat (log2 messages_literal ''ok'' ''ok''),
      chat (log3 messages_literal ''ok'' ''ok'' ''ok'')]"
  by (cases rule: getResponse_cases[of always_ok init]; simp add: outcome_ok init_simps)+

lemma run_gender_timeout:
  "schema (getResponse gender_timeout init) = jsonSchema"
  "messages (getResponse gender_timeout init) = log2 messages_literal ''ok'' ''ok''"
  "stdout (getResponse gender_timeout init) = [''BOT:ok'', ''BOT:ok'', ''ok'']"
  "stderr (getResponse gender_timeout init)
     = [(''Error getting response:'', ApiError ''Request timed out.'')]"
  "requests (getResponse gender_timeout init) =
     [chat messages_literal,
      chat (log1 messages_literal ''ok''),
      chat (log2 messages_literal ''ok'' ''ok''),
      chat (log2 messages_literal ''ok'' ''ok'')]"
  by (cases rule: getResponse_cases[of gender_timeout init];
      simp add: outcome_gender_timeout init_simps)+

lemma requests_blank_form: "length (requests (getResponse blank_form init)) = 5"
  by (cases rule: getResponse_cases[of blank_form init])
     (simp_all add: outcome_blank_form init_simps)



lemma user_side_by_requests:
  "user_contents (appended s (getResponse svc s))
     = take (utterances_after (length (requests (getResponse svc s)) - length (requests s)))
         [''Youdahe Asfaw'', ''04/29/2006'', ''Male'']"
  by (cases rule: getResponse_cases[of svc s])
     (simp_all add: appended_def user_contents_simps utterances_after_def)

lemma run_always_down:
  "messages (getResponse always_down init) = messages_literal"
  "stdout (getResponse always_down init) = []"
  "stderr (getResponse always_down init)
     = [(''Error getting response:'', ApiError ''connect ECONNREFUSED'')]"
  "requests (getResponse always_down init) = [chat messages_literal]"
  by (cases rule: getResponse_cases[of always_down init]; simp add: outcome_down init_simps)+

text \<open>
  The serialisation on a small object, as a check of the layout: two spaces per level,
  one member per line, empty containers closed at once.
\<close>

lemma stringify_example:
  "stringify (JObj [(''x'', JNum 100), (''t'', JArr [JStr ''a'', JNull]), (''e'', JObj [])])
    = ''{'' @ [CHR 0x0A]
      @ ''  '' @ [CHR 0x22] @ ''x'' @ [CHR 0x22] @ '': 100,'' @ [CHR 0x0A]
      @ ''  '' @ [CHR 0x22] @ ''t'' @ [CHR 0x22] @ '': ['' @ [CHR 0x0A]
      @ ''    '' @ [CHR 0x22] @ ''a'' @ [CHR 0x22] @ '','' @ [CHR 0x0A]
      @ ''    null'' @ [CHR 0x0A]
      @ ''  ],'' @ [CHR 0x0A]
      @ ''  '' @ [CHR 0x22] @ ''e'' @ [CHR 0x22] @ '': {}'' @ [CHR 0x0A]
      @ ''}''"
  by code_simp

text \<open>
  The literal as data: three fields with distinct ids and the tab orders 1, 2, 3 in
  source order; only the third has options and a logical rule.
\<close>

lemma literal_shape:
  "map (jget ''id'') (fields_of jsonSchema)
     = [Some (JStr ''field_01''), Some (JStr ''field_02''), Some (JStr ''field_03'')]"
  "distinct (map (jget ''id'') (fields_of jsonSchema))"
  "map tabOrder (fields_of jsonSchema) = [Some (JNum 1), Some (JNum 2), Some (JNum 3)]"
  "map (jget ''options'') (fields_of jsonSchema)
     = [None, None, Some (JArr [JStr ''Male'', JStr ''Female'', JStr ''Other''])]"
  "map logicalRule (fields_of jsonSchema) = [Some JNull, Some JNull, Some (JStr ''selectOne'')]"
  by (simp_all add: fields_jsonSchema field_01_def field_02_def field_03_def tabOrder_def
      logicalRule_def)

text \<open>
  The answer to the date of birth is printed but not pushed, so a run that gets as far
  as its fourth request sends the third one again.
\<close>

lemma fourth_request_repeats_third:
  "4 \<le> length (requests (getResponse svc init)) \<Longrightarrow>
    requests (getResponse svc init) ! 3 = requests (getResponse svc init) ! 2"
  by (cases rule: getResponse_cases[of svc init]) (simp_all add: init_simps)

text \<open>
  Every run sends between one and five requests, prints at most five lines and logs at
  most one error; it logs none exactly when it has printed all five lines.
\<close>

lemma run_bounds:
  "1 \<le> length (requests (getResponse svc init))"
  "length (requests (getResponse svc init)) \<le> 5"
  "length (stderr (getResponse svc init)) \<le> 1"
  "(stderr (getResponse svc init) = []) = (length (stdout (getResponse svc init)) = 5)"
  by (cases rule: getResponse_cases[of svc init]; simp add: init_simps)+

section \<open>The claims\<close>

subsection \<open>Scenario A: a name and a date of birth\<close>




subsection \<open>Required fields\<close>

text \<open>
  C2, as stated, fails. With a service that sends the form back as it received it, the
  run completes all five exchanges without an error and the document it prints last is
  the serialised literal, in which the required field \<^verbatim>\<open>field_01\<close> has
  the empty value null; the schema object the script holds is that same literal.
\<close>

theorem required_field_counterexample:
  "stderr (getResponse blank_form init) = []
   \<and> length (requests (getResponse blank_form init)) = 5
   \<and> last (stdout (getResponse blank_form init)) = stringify jsonSchema
   \<and> schema (getResponse blank_form init) = jsonSchema
   \<and> jget ''required'' (fields_of jsonSchema ! 0) = Some (JBool True)
   \<and> jget ''value'' (fields_of jsonSchema ! 0) = Some JNull"
  by (cases rule: getResponse_cases[of blank_form init])
     (simp_all add: outcome_blank_form init_simps fields_jsonSchema value_null required_flags)

text \<open>
  C2, as the script has it: at the end of every run, completed or cut short, each field
  of the schema marked required has the value null; and a run that logs no error has
  printed five lines, the last of which is the text the service returned to the fifth
  request, taken as it came.
\<close>

theorem required_fields_stay_empty:
  "(\<forall>f \<in> set (fields_of (schema (getResponse svc init))).
       jget ''required'' f = Some (JBool True) \<longrightarrow> jget ''value'' f = Some JNull)
   \<and> (stderr (getResponse svc init) = [] \<longrightarrow>
       length (stdout (getResponse svc init)) = 5
       \<and> outcome (svc 4 (requests (getResponse svc init) ! 4))
           = Inr (stdout (getResponse svc init) ! 4))"
  by (cases rule: getResponse_cases[of svc init])
     (simp_all add: init_simps fields_jsonSchema value_null)

text \<open>The same at the service that always answers \<^verbatim>\<open>ok\<close> and the first field.\<close>

theorem required_fields_stay_empty_witness:
  "field_01 \<in> set (fields_of (schema (getResponse always_ok init)))
   \<and> jget ''required'' field_01 = Some (JBool True)
   \<and> jget ''value'' field_01 = Some JNull
   \<and> stderr (getResponse always_ok init) = []
   \<and> length (stdout (getResponse always_ok init)) = 5
   \<and> outcome (always_ok 4 (requests (getResponse always_ok init) ! 4))
       = Inr (stdout (getResponse always_ok init) ! 4)"
  using required_fields_stay_empty [of always_ok]
  by (simp add: run_always_ok fields_jsonSchema required_flags)

subsection \<open>The gender exchange\<close>

text \<open>
  The field of type radio lists the options Male, Female, Other. In every run its value
  is null at the end and no user message pushed is \<^verbatim>\<open>banana\<close>: the only
  utterance the script has for this field is the literal \<^verbatim>\<open>Male\<close>, pushed
  last in the runs that send their fifth request and sent with that request. The script
  has no option check, no rejection and no retry counter to run on another utterance.
\<close>

lemma gender_exchange:
  "jget ''options'' (fields_of (schema (getResponse svc init)) ! 2)
     = Some (JArr [JStr ''Male'', JStr ''Female'', JStr ''Other''])"
  "jget ''value'' (fields_of (schema (getResponse svc init)) ! 2) = Some JNull"
  "''banana'' \<notin> set (user_contents (appended init (getResponse svc init)))"
  "length (requests (getResponse svc init)) = 5 \<Longrightarrow>
     \<exists>repy DOBreply GenderReply.
       messages (getResponse svc init) = log3 messages_literal repy DOBreply GenderReply
     \<and> req_messages (requests (getResponse svc init) ! 4) = messages (getResponse svc init)"
  by (cases rule: getResponse_cases[of svc init];
      simp add: init_simps fields_jsonSchema value_null gender_field appended_def
        user_contents_simps)+

subsection \<open>A call that fails\<close>

text \<open>
  C7, as stated, fails. When the fourth call, the first about the optional gender field,
  times out, the run stops there: four requests in all, one error line, the reply
  \<^verbatim>\<open>Male\<close> never sent, the schema as it was. Nothing is asked again and nothing
  is marked as skipped.
\<close>

theorem timeout_counterexample:
  "length (requests (getResponse gender_timeout init)) = 4
   \<and> stderr (getResponse gender_timeout init)
       = [(''Error getting response:'', ApiError ''Request timed out.'')]
   \<and> user_contents (appended init (getResponse gender_timeout init))
       = [''Youdahe Asfaw'', ''04/29/2006'']
   \<and> schema (getResponse gender_timeout init) = jsonSchema"
  by (simp add: run_gender_timeout appended_def init_simps user_contents_simps)

text \<open>
  C7, as the script has it: an exchange that throws (a rejected call, so also a timeout,
  or a response without a first choice) is caught and reported once with
  \<^verbatim>\<open>console.error\<close>; it is the last request of the run, so no run has two
  failed exchanges, and the schema is unchanged.
\<close>

theorem failure_ends_run:
  assumes "requests s = []"
    and "k < length (requests (getResponse svc s))"
    and "outcome (svc k (requests (getResponse svc s) ! k)) = Inl e"
  shows "Suc k = length (requests (getResponse svc s))
    \<and> stderr (getResponse svc s) = stderr s @ [(''Error getting response:'', e)]
    \<and> schema (getResponse svc s) = schema s"
  using assms
  by (cases rule: getResponse_cases[of svc s])
     (auto simp: less_Suc_eq nth_Cons' numeral_eq_Suc)

text \<open>The same at the service that times out on the fourth call.\<close>

theorem failure_ends_run_witness:
  "requests init = []
   \<and> 3 < length (requests (getResponse gender_timeout init))
   \<and> outcome (gender_timeout 3 (requests (getResponse gender_timeout init) ! 3))
       = Inl (ApiError ''Request timed out.'')
   \<and> Suc 3 = length (requests (getResponse gender_timeout init))
   \<and> stderr (getResponse gender_timeout init)
       = stderr init @ [(''Error getting response:'', ApiError ''Request timed out.'')]
   \<and> schema (getResponse gender_timeout init) = schema init"
  using failure_ends_run [of init 3 gender_timeout "ApiError ''Request timed out.''"]
  by (simp add: run_gender_timeout init_simps outcome_gender_timeout)

subsection \<open>The schema is never written\<close>

text \<open>
  C9: no statement of the script assigns to the schema object. Each kind of statement
  leaves it as it was, and so does the whole function from any state and with any
  service, whether the run completes or is cut short at any of the five calls. Started
  from the script's initial state, the run ends with the schema equal to the literal and
  with the value of each of the three fields null.
\<close>

theorem schema_never_written:
  "schema (snd (create svc s)) = schema s
   \<and> schema (snd (first_content choices s)) = schema s
   \<and> schema (snd (console_log line s)) = schema s
   \<and> schema (snd (push m s)) = schema s
   \<and> schema (console_error label e s) = schema s
   \<and> schema (getResponse svc s) = schema s
   \<and> schema (getResponse svc init) = jsonSchema
   \<and> map (jget ''value'') (fields_of (schema (getResponse svc init)))
       = [Some JNull, Some JNull, Some JNull]"
proof -
  have frame: "schema (getResponse svc t) = schema t" for t
    by (cases rule: getResponse_cases[of svc t]) simp_all
  have prims:
    "schema (snd (create svc s)) = schema s"
    "schema (snd (first_content choices s)) = schema s"
    by (simp_all add: create_def first_content_def Let_def
        split: api_result.splits list.splits)
  show ?thesis
    by (simp add: frame prims console_log_def push_def console_error_def init_simps
        fields_jsonSchema value_null)
qed

subsection \<open>The user side of the conversation\<close>

text \<open>
  C10, as stated, fails. With a service that refuses every call the first exchange throws
  and the run ends before any reply is pushed: the user side is empty.
\<close>

theorem user_side_counterexample:
  "user_contents (appended init (getResponse always_down init)) = []
   \<and> user_contents (appended init (getResponse always_down init))
       \<noteq> [''Youdahe Asfaw'', ''04/29/2006'', ''Male'']"
  by (cases rule: getResponse_cases[of always_down init])
     (simp_all add: outcome_down appended_same user_contents_simps)

text \<open>
  C10, as the script has it: the user messages pushed during a run are fixed by which
  exchange first throws. None if the first does; \<^verbatim>\<open>Youdahe Asfaw\<close> alone if
  the first is answered and the second throws; that and \<^verbatim>\<open>04/29/2006\<close> if the
  first two are answered and the third or the fourth throws; all three, ending with
  \<^verbatim>\<open>Male\<close>, whenever the first four are answered. So they are an initial
  segment of the three constants whose length is fixed by the number of requests the run
  sent, all three exactly when the fifth request was sent, and two runs that send the
  same number of requests have the same user side, whatever the replies were.
\<close>

theorem user_side_fixed:
  "user_contents (appended s (getResponse svc s))
     = user_side svc (length (requests s)) (messages s)
   \<and> user_contents (appended s (getResponse svc s))
     = take (utterances_after (length (requests (getResponse svc s)) - length (requests s)))
         [''Youdahe Asfaw'', ''04/29/2006'', ''Male'']
   \<and> (user_contents (appended s (getResponse svc s))
        = [''Youdahe Asfaw'', ''04/29/2006'', ''Male''])
       = (length (requests (getResponse svc s)) = length (requests s) + 5)
   \<and> (\<forall>svc'.
        length (requests (getResponse svc' s)) = length (requests (getResponse svc s))
        \<longrightarrow> user_contents (appended s (getResponse svc' s))
            = user_contents (appended s (getResponse svc s)))"
proof -
  have by_service:
    "user_contents (appended s (getResponse svc s))
       = user_side svc (length (requests s)) (messages s)"
    by (cases rule: getResponse_cases[of svc s])
       (simp_all add: appended_def user_contents_simps user_side_def)
  have all_three:
    "(user_contents (appended s (getResponse svc s))
        = [''Youdahe Asfaw'', ''04/29/2006'', ''Male''])
       = (length (requests (getResponse svc s)) = length (requests s) + 5)"
    by (cases rule: getResponse_cases[of svc s])
       (simp_all add: appended_def user_contents_simps)
  show ?thesis
    using by_service all_three by (simp add: user_side_by_requests)
qed

text \<open>
  The same at services that time out on the first, second, third, fourth and fifth call,
  at one that answers every call, and at two that answer every call differently.
\<close>

theorem user_side_fixed_witness:
  "user_contents (appended init (getResponse always_down init)) = []
   \<and> user_contents (appended init (getResponse (fails_at 1) init)) = [''Youdahe Asfaw'']
   \<and> user_contents (appended init (getResponse (fails_at 2) init))
       = [''Youdahe Asfaw'', ''04/29/2006'']
   \<and> user_contents (appended init (getResponse (fails_at 3) init))
       = [''Youdahe Asfaw'', ''04/29/2006'']
   \<and> user_contents (appended init (getResponse (fails_at 4) init))
       = [''Youdahe Asfaw'', ''04/29/2006'', ''Male'']
   \<and> user_contents (appended init (getResponse always_ok init))
       = [''Youdahe Asfaw'', ''04/29/2006'', ''Male'']
   \<and> length (requests (getResponse blank_form init))
       = length (requests (getResponse always_ok init))
   \<and> user_contents (appended init (getResponse blank_form init))
       = user_contents (appended init (getResponse always_ok init))"
  using user_side_fixed [of init always_down] user_side_fixed [of init "fails_at 1"]
    user_side_fixed [of init "fails_at 2"] user_side_fixed [of init "fails_at 3"]
    user_side_fixed [of init "fails_at 4"] user_side_fixed [of init always_ok]
    user_side_fixed [of init blank_form]
  by (simp add: user_side_def outcome_down outcome_fails_at outcome_ok outcome_blank_form
      init_simps requests_blank_form run_always_ok)

end
